theory Spec2Isabelle
  imports Complex_Main
begin

section \<open>The scan-cost pricing engine of src/app/page.tsx\<close>

text \<open>
  The engine is the function \<open>calculate\<close> of src/app/page.tsx together with its helper
  \<open>safeNumber\<close>. Both work on JavaScript numbers, which are IEEE 754 doubles. A number is
  modelled as a finite value, negative zero, one of the two infinities, or NaN; the finite
  values are rationals and \<open>Fin 0\<close> is positive zero.

  The special values follow ECMAScript: division by zero gives an infinity or NaN, the
  sign of a zero is kept and decides the sign of that infinity, NaN spreads through
  arithmetic and through \<open>Math.max\<close>, and every comparison with NaN is false. The range of
  the doubles is modelled too: a result whose magnitude reaches \<open>2^1024 - 2^970\<close> is an
  infinity, and a result whose magnitude is at most \<open>2^-1075\<close> is a zero. Inside that
  range a finite result keeps its exact value: the rounding of a result to 53 significant
  bits is not modelled. The general theorems of this file are therefore stated on the
  operations themselves (\<open>js_add\<close>, \<open>js_mul\<close>, \<open>js_div\<close>, ...) and on the fields of the
  result, and none of them relies on a finite result being exact.
\<close>

subsection \<open>JavaScript numbers\<close>

datatype jsnum = Fin rat | NegZero | PInf | NInf | NaN

text \<open>\<open>Number.isNaN\<close> and \<open>Number.isFinite\<close>\<close>

fun isNaN :: "jsnum \<Rightarrow> bool" where
  "isNaN NaN = True"
| "isNaN _ = False"

fun isFinite :: "jsnum \<Rightarrow> bool" where
  "isFinite (Fin _) = True"
| "isFinite NegZero = True"
| "isFinite _ = False"

text \<open>The rational value of a finite number (both zeros have the value 0).\<close>

fun fin_val :: "jsnum \<Rightarrow> rat" where
  "fin_val (Fin q) = q"
| "fin_val _ = 0"

text \<open>The sign bit of a number that is not NaN.\<close>

fun negative :: "jsnum \<Rightarrow> bool" where
  "negative (Fin q) = (q < 0)"
| "negative NegZero = True"
| "negative NInf = True"
| "negative _ = False"

definition signed_inf :: "bool \<Rightarrow> jsnum" where
  "signed_inf neg = (if neg then NInf else PInf)"

definition signed_zero :: "bool \<Rightarrow> jsnum" where
  "signed_zero neg = (if neg then NegZero else Fin 0)"

text \<open>
  The least magnitude that rounds to an infinity (half way between the largest double and
  \<open>2^1024\<close>), and the greatest magnitude that rounds to a zero (half way between zero and
  the smallest positive double \<open>2^-1074\<close>).
\<close>

definition overflow_bound :: rat where
  "overflow_bound = 2 ^ 1024 - 2 ^ 970"

definition underflow_bound :: rat where
  "underflow_bound = 1 / 2 ^ 1075"

text \<open>
  The number returned by an operation on finite operands whose exact result is \<open>q\<close> and
  whose sign bit is \<open>neg\<close>.
\<close>

definition finite_result :: "bool \<Rightarrow> rat \<Rightarrow> jsnum" where
  "finite_result neg q =
     (if overflow_bound \<le> \<bar>q\<bar> then signed_inf neg
      else if \<bar>q\<bar> \<le> underflow_bound then signed_zero neg
      else Fin q)"

text \<open>Unary minus.\<close>

fun js_neg :: "jsnum \<Rightarrow> jsnum" where
  "js_neg (Fin q) = (if q = 0 then NegZero else Fin (- q))"
| "js_neg NegZero = Fin 0"
| "js_neg PInf = NInf"
| "js_neg NInf = PInf"
| "js_neg NaN = NaN"

text \<open>
  \<open>a + b\<close>. An exact sum of zero is positive zero, unless both operands are negative
  zeros.
\<close>

fun js_add :: "jsnum \<Rightarrow> jsnum \<Rightarrow> jsnum" where
  "js_add NaN _ = NaN"
| "js_add _ NaN = NaN"
| "js_add PInf NInf = NaN"
| "js_add NInf PInf = NaN"
| "js_add PInf _ = PInf"
| "js_add _ PInf = PInf"
| "js_add NInf _ = NInf"
| "js_add _ NInf = NInf"
| "js_add a b =
     (let s = fin_val a + fin_val b
      in if s = 0 then signed_zero (negative a \<and> negative b) else finite_result (s < 0) s)"

text \<open>\<open>a - b\<close>, which is \<open>a + (-b)\<close> for doubles.\<close>

definition js_sub :: "jsnum \<Rightarrow> jsnum \<Rightarrow> jsnum" where
  "js_sub a b = js_add a (js_neg b)"

text \<open>An infinity with sign bit \<open>neg\<close> times a finite number: NaN when that number is a zero.\<close>

definition inf_times :: "bool \<Rightarrow> jsnum \<Rightarrow> jsnum" where
  "inf_times neg x =
     (if fin_val x = 0 then NaN else signed_inf (neg \<noteq> negative x))"

text \<open>\<open>a * b\<close>\<close>

fun js_mul :: "jsnum \<Rightarrow> jsnum \<Rightarrow> jsnum" where
  "js_mul NaN _ = NaN"
| "js_mul _ NaN = NaN"
| "js_mul PInf PInf = PInf"
| "js_mul NInf NInf = PInf"
| "js_mul PInf NInf = NInf"
| "js_mul NInf PInf = NInf"
| "js_mul PInf b = inf_times False b"
| "js_mul NInf b = inf_times True b"
| "js_mul a PInf = inf_times False a"
| "js_mul a NInf = inf_times True a"
| "js_mul a b = finite_result (negative a \<noteq> negative b) (fin_val a * fin_val b)"

text \<open>
  \<open>a / b\<close>. A finite non-zero number divided by a zero is an infinity, whose sign comes
  from the two sign bits; a zero divided by a zero is NaN.
\<close>

fun js_div :: "jsnum \<Rightarrow> jsnum \<Rightarrow> jsnum" where
  "js_div NaN _ = NaN"
| "js_div _ NaN = NaN"
| "js_div PInf PInf = NaN"
| "js_div PInf NInf = NaN"
| "js_div NInf PInf = NaN"
| "js_div NInf NInf = NaN"
| "js_div PInf b = signed_inf (negative b)"
| "js_div NInf b = signed_inf (\<not> negative b)"
| "js_div a PInf = signed_zero (negative a)"
| "js_div a NInf = signed_zero (\<not> negative a)"
| "js_div a b =
     (if fin_val b = 0
      then (if fin_val a = 0 then NaN else signed_inf (negative a \<noteq> negative b))
      else finite_result (negative a \<noteq> negative b) (fin_val a / fin_val b))"

text \<open>\<open>Math.ceil(a)\<close>: a value strictly between -1 and 0 gives negative zero.\<close>

fun js_ceil :: "jsnum \<Rightarrow> jsnum" where
  "js_ceil (Fin q) = (if - 1 < q \<and> q < 0 then NegZero else Fin (of_int \<lceil>q\<rceil>))"
| "js_ceil NegZero = NegZero"
| "js_ceil PInf = PInf"
| "js_ceil NInf = NInf"
| "js_ceil NaN = NaN"

text \<open>\<open>a > b\<close>: false as soon as one side is NaN; the two zeros are equal.\<close>

fun js_gt :: "jsnum \<Rightarrow> jsnum \<Rightarrow> bool" where
  "js_gt NaN _ = False"
| "js_gt _ NaN = False"
| "js_gt PInf PInf = False"
| "js_gt PInf _ = True"
| "js_gt _ PInf = False"
| "js_gt NInf _ = False"
| "js_gt _ NInf = True"
| "js_gt a b = (fin_val b < fin_val a)"

text \<open>\<open>a <= b\<close>: false as soon as one side is NaN.\<close>

fun js_le :: "jsnum \<Rightarrow> jsnum \<Rightarrow> bool" where
  "js_le NaN _ = False"
| "js_le _ NaN = False"
| "js_le a b = (\<not> js_gt a b)"

text \<open>
  \<open>a !== b\<close> on numbers: NaN differs from everything, itself included, and the two zeros
  do not differ.
\<close>

fun js_strict_neq :: "jsnum \<Rightarrow> jsnum \<Rightarrow> bool" where
  "js_strict_neq NaN _ = True"
| "js_strict_neq _ NaN = True"
| "js_strict_neq PInf b = (b \<noteq> PInf)"
| "js_strict_neq NInf b = (b \<noteq> NInf)"
| "js_strict_neq a PInf = True"
| "js_strict_neq a NInf = True"
| "js_strict_neq a b = (fin_val a \<noteq> fin_val b)"

text \<open>
  \<open>Math.max(a, b)\<close>: NaN as soon as one argument is NaN; of the two zeros the positive
  one is the greater.
\<close>

fun js_max :: "jsnum \<Rightarrow> jsnum \<Rightarrow> jsnum" where
  "js_max NaN _ = NaN"
| "js_max _ NaN = NaN"
| "js_max a b =
     (if js_gt b a then b else if js_gt a b then a else if negative a then b else a)"

subsection \<open>The data model\<close>

datatype Mode = noDeadline | withDeadline

datatype LaborMode = perPage | salary

record InputState =
  pages :: jsnum
  laborPerPage :: jsnum
  monthlySalaryPerWorker :: jsnum
  scannerMonthly :: jsnum
  pcMonthly :: jsnum
  workingDaysPerMonth :: jsnum
  officePerJob :: jsnum
  riskRate :: jsnum
  gpRate :: jsnum
  capacityPerPersonPerDay :: jsnum
  workersManual :: jsnum
  deadlineDays :: jsnum
  trialPricePerPage :: jsnum

text \<open>
  The four messages that \<open>calculate\<close> pushes on its \<open>errors\<close> array, in the order of the
  source: the page count must be greater than 0, the scanning capacity per person and day
  must be greater than 0, the working days per month must be greater than 0, and risk
  plus GP must sum to less than 100 percent. The source holds them as Thai strings; only
  their identity and order matter here.
\<close>

datatype message = MsgPages | MsgCapacity | MsgWorkingDays | MsgRiskGp

record CalcResult =
  valid :: bool
  modeUsed :: Mode
  workers :: jsnum
  daysNeeded :: jsnum
  monthsNeeded :: jsnum
  monthlyRentalPerWorker :: jsnum
  rentalTotal :: jsnum
  laborCost :: jsnum
  officeCost :: jsnum
  baseCost :: jsnum
  requiredRevenue :: "jsnum option"
  requiredPricePerPage :: "jsnum option"
  riskAmount :: "jsnum option"
  targetGPAmount :: "jsnum option"
  profitAfterRisk :: "jsnum option"
  trialRevenue :: "jsnum option"
  trialRiskAmount :: "jsnum option"
  trialProfit :: "jsnum option"
  trialGPPercent :: "jsnum option"
  errors :: "message list"

subsection \<open>safeNumber and calculate\<close>

definition safeNumber :: "jsnum \<Rightarrow> jsnum" where
  "safeNumber v = (if isNaN v \<or> \<not> isFinite v then Fin 0 else v)"

text \<open>
  \<open>errors.push(m)\<close> under a condition: the array grows at its end.
\<close>

definition push_if :: "bool \<Rightarrow> message \<Rightarrow> message list \<Rightarrow> message list" where
  "push_if c m es = (if c then es @ [m] else es)"

text \<open>
  The body of \<open>calculate\<close>, one binding per \<open>const\<close> or \<open>let\<close> of the source and in the
  source's order. A variable that the source initialises to \<open>null\<close> and assigns under a
  condition is an option here. The local names carry a prime where they would hide a field
  selector.
\<close>

definition calculate :: "InputState \<Rightarrow> Mode \<Rightarrow> LaborMode \<Rightarrow> CalcResult" where
  "calculate input mode laborMode =
    (let pages' = safeNumber (pages input);
         laborPerPage' = safeNumber (laborPerPage input);
         monthlySalaryPerWorker' = safeNumber (monthlySalaryPerWorker input);
         scannerMonthly' = safeNumber (scannerMonthly input);
         pcMonthly' = safeNumber (pcMonthly input);
         workingDaysPerMonth' = safeNumber (workingDaysPerMonth input);
         officePerJob' = safeNumber (officePerJob input);
         riskRate' = safeNumber (riskRate input);
         gpRate' = safeNumber (gpRate input);
         capacity = safeNumber (capacityPerPersonPerDay input);
         workersManual' = js_max (Fin 1) (safeNumber (workersManual input));
         deadlineDays' = safeNumber (deadlineDays input);
         trialPricePerPage' = safeNumber (trialPricePerPage input);
         errors0 = push_if (js_le pages' (Fin 0)) MsgPages [];
         errors1 = push_if (js_le capacity (Fin 0)) MsgCapacity errors0;
         errors2 = push_if (js_le workingDaysPerMonth' (Fin 0)) MsgWorkingDays errors1;
         errors' = push_if (js_le (js_sub (js_sub (Fin 1) riskRate') gpRate') (Fin 0))
                     MsgRiskGp errors2;
         workers' =
           (if mode = withDeadline \<and> js_gt deadlineDays' (Fin 0)
            then (let rawWorkers = js_div pages' (js_mul capacity deadlineDays')
                  in js_max (Fin 1) (js_ceil rawWorkers))
            else workersManual');
         daysNeeded' =
           (if js_gt capacity (Fin 0) \<and> js_gt workers' (Fin 0)
            then js_div pages' (js_mul capacity workers')
            else Fin 0);
         monthsNeeded' =
           (if js_gt workingDaysPerMonth' (Fin 0) \<and> js_gt daysNeeded' (Fin 0)
            then js_ceil (js_div daysNeeded' workingDaysPerMonth')
            else Fin 0);
         monthlyRentalPerWorker' = js_add scannerMonthly' pcMonthly';
         rentalTotal' = js_mul (js_mul monthlyRentalPerWorker' workers') monthsNeeded';
         laborCost' =
           (if laborMode = perPage
            then js_mul pages' laborPerPage'
            else js_mul (js_mul monthlySalaryPerWorker' workers') monthsNeeded');
         officeCost' = officePerJob';
         baseCost' = js_add (js_add rentalTotal' laborCost') officeCost';
         revenueGate =
           (js_gt baseCost' (Fin 0)
            \<and> js_gt (js_sub (js_sub (Fin 1) riskRate') gpRate') (Fin 0)
            \<and> errors' = []);
         requiredRevenueV = js_div baseCost' (js_sub (js_sub (Fin 1) riskRate') gpRate');
         riskAmountV = js_mul requiredRevenueV riskRate';
         requiredRevenue' = (if revenueGate then Some requiredRevenueV else None);
         riskAmount' = (if revenueGate then Some riskAmountV else None);
         targetGPAmount' =
           (if revenueGate then Some (js_mul requiredRevenueV gpRate') else None);
         profitAfterRisk' =
           (if revenueGate
            then Some (js_sub (js_sub requiredRevenueV baseCost') riskAmountV)
            else None);
         requiredPricePerPage' =
           (if revenueGate \<and> js_gt pages' (Fin 0)
            then Some (js_div requiredRevenueV pages')
            else None);
         trialGate =
           (js_gt trialPricePerPage' (Fin 0) \<and> js_gt pages' (Fin 0)
            \<and> js_gt baseCost' (Fin 0));
         trialRevenueV = js_mul trialPricePerPage' pages';
         trialRiskAmountV = js_mul trialRevenueV riskRate';
         trialProfitV = js_sub (js_sub trialRevenueV baseCost') trialRiskAmountV;
         trialRevenue' = (if trialGate then Some trialRevenueV else None);
         trialRiskAmount' = (if trialGate then Some trialRiskAmountV else None);
         trialProfit' = (if trialGate then Some trialProfitV else None);
         trialGPPercent' =
           (if trialGate \<and> js_strict_neq trialRevenueV (Fin 0)
            then Some (js_div trialProfitV trialRevenueV)
            else None)
     in \<lparr> valid = (errors' = []),
          modeUsed = mode,
          workers = workers',
          daysNeeded = daysNeeded',
          monthsNeeded = monthsNeeded',
          monthlyRentalPerWorker = monthlyRentalPerWorker',
          rentalTotal = rentalTotal',
          laborCost = laborCost',
          officeCost = officeCost',
          baseCost = baseCost',
          requiredRevenue = requiredRevenue',
          requiredPricePerPage = requiredPricePerPage',
          riskAmount = riskAmount',
          targetGPAmount = targetGPAmount',
          profitAfterRisk = profitAfterRisk',
          trialRevenue = trialRevenue',
          trialRiskAmount = trialRiskAmount',
          trialProfit = trialProfit',
          trialGPPercent = trialGPPercent',
          errors = errors' \<rparr>)"

text \<open>
  The initial form state of the page component: the input the application starts with.
\<close>

definition initialInput :: InputState where
  "initialInput =
     \<lparr> pages = Fin 20000,
       laborPerPage = Fin (3 / 10),
       monthlySalaryPerWorker = Fin 15000,
       scannerMonthly = Fin 4500,
       pcMonthly = Fin 3000,
       workingDaysPerMonth = Fin 22,
       officePerJob = Fin 10000,
       riskRate = Fin (3 / 100),
       gpRate = Fin (35 / 100),
       capacityPerPersonPerDay = Fin 1500,
       workersManual = Fin 1,
       deadlineDays = Fin 30,
       trialPricePerPage = Fin (3 / 2) \<rparr>"

text \<open>
  A second input, chosen so that every field and every intermediate result of \<open>calculate\<close>
  is a binary fraction with few digits. On this input, and on the variations of it used
  below, double arithmetic rounds nothing, so the values computed here are the values the
  code computes.
\<close>

definition binaryInput :: InputState where
  "binaryInput =
     \<lparr> pages = Fin 20480,
       laborPerPage = Fin (1 / 2),
       monthlySalaryPerWorker = Fin 15000,
       scannerMonthly = Fin 4500,
       pcMonthly = Fin 3000,
       workingDaysPerMonth = Fin 16,
       officePerJob = Fin 10000,
       riskRate = Fin (1 / 4),
       gpRate = Fin (1 / 4),
       capacityPerPersonPerDay = Fin 1024,
       workersManual = Fin 1,
       deadlineDays = Fin 16,
       trialPricePerPage = Fin 2 \<rparr>"

text \<open>
  Three inputs at the edge of the range of the doubles, each a variation of the second
  input in which every amount is still a power of two or a small binary fraction: a job
  of \<open>2^-600\<close> pages at a trial price of \<open>2^-600\<close> per page, a job whose only cost is an
  office cost of \<open>2^1023\<close>, and a job of \<open>2^600\<close> pages at a capacity of \<open>2^-600\<close> pages
  per person and day with no equipment rent.
\<close>

definition tinyPagesInput :: InputState where
  "tinyPagesInput =
     binaryInput\<lparr>pages := Fin (1 / 2 ^ 600), laborPerPage := Fin 0,
       trialPricePerPage := Fin (1 / 2 ^ 600)\<rparr>"



text \<open>
  The rational value of an input after \<open>safeNumber\<close>: the sanitized input. \<open>safeNumber\<close>
  always returns a finite number, whose value this is (a negative zero has the value 0).
\<close>

definition san :: "jsnum \<Rightarrow> rat" where
  "san v = (case safeNumber v of Fin q \<Rightarrow> q | _ \<Rightarrow> 0)"

text \<open>
  A whole number that is at least 1, as a JavaScript number: neither an infinity nor NaN.
\<close>

fun integer_ge1 :: "jsnum \<Rightarrow> bool" where
  "integer_ge1 (Fin q) = (of_int \<lfloor>q\<rfloor> = q \<and> 1 \<le> q)"
| "integer_ge1 _ = False"

section \<open>Basic facts\<close>

subsection \<open>Arithmetic\<close>

lemma ceiling_rat_numeral_div [simp]:
  "\<lceil>numeral a / numeral b :: rat\<rceil> = - (- numeral a div numeral b)"
proof -
  have "\<lfloor>of_int (- numeral a) / of_int (numeral b) :: rat\<rfloor> = (- numeral a) div numeral b"
    by (rule floor_divide_of_int_eq)
  then show ?thesis by (simp add: ceiling_def)
qed

lemma floor_rat_numeral_div [simp]:
  "\<lfloor>numeral a / numeral b :: rat\<rfloor> = numeral a div numeral b"
proof -
  have "\<lfloor>of_int (numeral a) / of_int (numeral b) :: rat\<rfloor> = numeral a div numeral b"
    by (rule floor_divide_of_int_eq)
  then show ?thesis by simp
qed

lemma ceiling_rat_one_div [simp]:
  "\<lceil>1 / numeral b :: rat\<rceil> = - (- 1 div numeral b)"
  using ceiling_rat_numeral_div [of Num.One b] by simp

lemma floor_rat_one_div [simp]:
  "\<lfloor>1 / numeral b :: rat\<rfloor> = 1 div numeral b"
  using floor_rat_numeral_div [of Num.One b] by simp

lemma finite_result_zero: "finite_result neg 0 = signed_zero neg"
  by (simp add: finite_result_def overflow_bound_def underflow_bound_def)

lemma finite_result_moderate:
  assumes "1 / 2 ^ 64 \<le> \<bar>q\<bar>" "\<bar>q\<bar> \<le> 2 ^ 64"
  shows "finite_result neg q = Fin q"
proof -
  have "(2::rat) ^ 64 < overflow_bound"
    by (simp add: overflow_bound_def)
  moreover have "underflow_bound < 1 / 2 ^ 64"
    by (simp add: underflow_bound_def)
  ultimately show ?thesis
    using assms by (simp add: finite_result_def)
qed

lemma san_Fin [simp]: "san (Fin q) = q"
  by (simp add: san_def safeNumber_def)

lemma js_gt_safeNumber: "js_gt (safeNumber v) (Fin 0) = (0 < san v)"
  by (cases v) (simp_all add: safeNumber_def san_def)

lemma js_le_safeNumber: "js_le (safeNumber v) (Fin 0) = (san v \<le> 0)"
  by (cases v) (simp_all add: safeNumber_def san_def not_less)

lemma js_max_safeNumber: "js_max (Fin 1) (safeNumber v) = Fin (max 1 (san v))"
  by (cases v) (simp_all add: safeNumber_def san_def max_def)

lemma integer_ge1_max_ceil:
  "isFinite x \<Longrightarrow> integer_ge1 (js_max (Fin 1) (js_ceil x))"
  by (cases x) (simp_all add: max_def)

subsection \<open>The fields of the result, one by one\<close>

text \<open>
  Each field of the result, written with the operations of the source on the sanitized
  inputs and on the fields computed before it.
\<close>

lemmas unfold_calculate = calculate_def Let_def CalcResult.select_convs

lemma errors_calculate:
  "errors (calculate i m l) =
     push_if (js_le (js_sub (js_sub (Fin 1) (safeNumber (riskRate i))) (safeNumber (gpRate i)))
                (Fin 0)) MsgRiskGp
       (push_if (js_le (safeNumber (workingDaysPerMonth i)) (Fin 0)) MsgWorkingDays
         (push_if (js_le (safeNumber (capacityPerPersonPerDay i)) (Fin 0)) MsgCapacity
           (push_if (js_le (safeNumber (pages i)) (Fin 0)) MsgPages [])))"
  by (simp only: unfold_calculate)

lemma errors_empty_pages:
  assumes "errors (calculate i m l) = []"
  shows "js_gt (safeNumber (pages i)) (Fin 0)"
proof -
  from assms have "\<not> js_le (safeNumber (pages i)) (Fin 0)"
    by (simp add: errors_calculate push_if_def split: if_splits)
  then show ?thesis
    by (simp add: js_le_safeNumber js_gt_safeNumber)
qed

lemma valid_calculate: "valid (calculate i m l) = (errors (calculate i m l) = [])"
  by (simp only: unfold_calculate)

lemma workers_calculate:
  "workers (calculate i m l) =
     (if m = withDeadline \<and> js_gt (safeNumber (deadlineDays i)) (Fin 0)
      then js_max (Fin 1)
             (js_ceil (js_div (safeNumber (pages i))
                (js_mul (safeNumber (capacityPerPersonPerDay i)) (safeNumber (deadlineDays i)))))
      else js_max (Fin 1) (safeNumber (workersManual i)))"
  by (simp only: unfold_calculate)

lemma daysNeeded_calculate:
  "daysNeeded (calculate i m l) =
     (if js_gt (safeNumber (capacityPerPersonPerDay i)) (Fin 0)
         \<and> js_gt (workers (calculate i m l)) (Fin 0)
      then js_div (safeNumber (pages i))
             (js_mul (safeNumber (capacityPerPersonPerDay i)) (workers (calculate i m l)))
      else Fin 0)"
  by (simp only: unfold_calculate)

lemma monthsNeeded_calculate:
  "monthsNeeded (calculate i m l) =
     (if js_gt (safeNumber (workingDaysPerMonth i)) (Fin 0)
         \<and> js_gt (daysNeeded (calculate i m l)) (Fin 0)
      then js_ceil (js_div (daysNeeded (calculate i m l)) (safeNumber (workingDaysPerMonth i)))
      else Fin 0)"
  by (simp only: unfold_calculate)

lemma rentalTotal_calculate:
  "rentalTotal (calculate i m l) =
     js_mul (js_mul (js_add (safeNumber (scannerMonthly i)) (safeNumber (pcMonthly i)))
               (workers (calculate i m l)))
       (monthsNeeded (calculate i m l))"
  by (simp only: unfold_calculate)

lemma laborCost_calculate:
  "laborCost (calculate i m l) =
     (if l = perPage then js_mul (safeNumber (pages i)) (safeNumber (laborPerPage i))
      else js_mul (js_mul (safeNumber (monthlySalaryPerWorker i)) (workers (calculate i m l)))
             (monthsNeeded (calculate i m l)))"
  by (simp only: unfold_calculate)

lemma officeCost_calculate: "officeCost (calculate i m l) = safeNumber (officePerJob i)"
  by (simp only: unfold_calculate)

lemma baseCost_calculate:
  "baseCost (calculate i m l) =
     js_add (js_add (rentalTotal (calculate i m l)) (laborCost (calculate i m l)))
       (officeCost (calculate i m l))"
  by (simp only: unfold_calculate)

lemma requiredRevenue_calculate:
  "requiredRevenue (calculate i m l) =
     (if js_gt (baseCost (calculate i m l)) (Fin 0)
         \<and> js_gt (js_sub (js_sub (Fin 1) (safeNumber (riskRate i))) (safeNumber (gpRate i)))
              (Fin 0)
         \<and> errors (calculate i m l) = []
      then Some (js_div (baseCost (calculate i m l))
                   (js_sub (js_sub (Fin 1) (safeNumber (riskRate i))) (safeNumber (gpRate i))))
      else None)"
  by (simp only: unfold_calculate)

lemma riskAmount_calculate:
  "riskAmount (calculate i m l) =
     (if js_gt (baseCost (calculate i m l)) (Fin 0)
         \<and> js_gt (js_sub (js_sub (Fin 1) (safeNumber (riskRate i))) (safeNumber (gpRate i)))
              (Fin 0)
         \<and> errors (calculate i m l) = []
      then Some (js_mul
             (js_div (baseCost (calculate i m l))
                (js_sub (js_sub (Fin 1) (safeNumber (riskRate i))) (safeNumber (gpRate i))))
             (safeNumber (riskRate i)))
      else None)"
  by (simp only: unfold_calculate)

lemma targetGPAmount_calculate:
  "targetGPAmount (calculate i m l) =
     (if js_gt (baseCost (calculate i m l)) (Fin 0)
         \<and> js_gt (js_sub (js_sub (Fin 1) (safeNumber (riskRate i))) (safeNumber (gpRate i)))
              (Fin 0)
         \<and> errors (calculate i m l) = []
      then Some (js_mul
             (js_div (baseCost (calculate i m l))
                (js_sub (js_sub (Fin 1) (safeNumber (riskRate i))) (safeNumber (gpRate i))))
             (safeNumber (gpRate i)))
      else None)"
  by (simp only: unfold_calculate)

lemma profitAfterRisk_calculate:
  "profitAfterRisk (calculate i m l) =
     (if js_gt (baseCost (calculate i m l)) (Fin 0)
         \<and> js_gt (js_sub (js_sub (Fin 1) (safeNumber (riskRate i))) (safeNumber (gpRate i)))
              (Fin 0)
         \<and> errors (calculate i m l) = []
      then Some (js_sub
             (js_sub
                (js_div (baseCost (calculate i m l))
                   (js_sub (js_sub (Fin 1) (safeNumber (riskRate i))) (safeNumber (gpRate i))))
                (baseCost (calculate i m l)))
             (js_mul
                (js_div (baseCost (calculate i m l))
                   (js_sub (js_sub (Fin 1) (safeNumber (riskRate i))) (safeNumber (gpRate i))))
                (safeNumber (riskRate i))))
      else None)"
  by (simp only: unfold_calculate)

lemma requiredPricePerPage_calculate:
  "requiredPricePerPage (calculate i m l) =
     (if (js_gt (baseCost (calculate i m l)) (Fin 0)
          \<and> js_gt (js_sub (js_sub (Fin 1) (safeNumber (riskRate i))) (safeNumber (gpRate i)))
               (Fin 0)
          \<and> errors (calculate i m l) = [])
         \<and> js_gt (safeNumber (pages i)) (Fin 0)
      then Some (js_div
             (js_div (baseCost (calculate i m l))
                (js_sub (js_sub (Fin 1) (safeNumber (riskRate i))) (safeNumber (gpRate i))))
             (safeNumber (pages i)))
      else None)"
  by (simp only: unfold_calculate)

lemma trialRevenue_calculate:
  "trialRevenue (calculate i m l) =
     (if js_gt (safeNumber (trialPricePerPage i)) (Fin 0) \<and> js_gt (safeNumber (pages i)) (Fin 0)
         \<and> js_gt (baseCost (calculate i m l)) (Fin 0)
      then Some (js_mul (safeNumber (trialPricePerPage i)) (safeNumber (pages i)))
      else None)"
  by (simp only: unfold_calculate)

lemma trialRiskAmount_calculate:
  "trialRiskAmount (calculate i m l) =
     (if js_gt (safeNumber (trialPricePerPage i)) (Fin 0) \<and> js_gt (safeNumber (pages i)) (Fin 0)
         \<and> js_gt (baseCost (calculate i m l)) (Fin 0)
      then Some (js_mul (js_mul (safeNumber (trialPricePerPage i)) (safeNumber (pages i)))
                   (safeNumber (riskRate i)))
      else None)"
  by (simp only: unfold_calculate)

lemma trialProfit_calculate:
  "trialProfit (calculate i m l) =
     (if js_gt (safeNumber (trialPricePerPage i)) (Fin 0) \<and> js_gt (safeNumber (pages i)) (Fin 0)
         \<and> js_gt (baseCost (calculate i m l)) (Fin 0)
      then Some (js_sub
             (js_sub (js_mul (safeNumber (trialPricePerPage i)) (safeNumber (pages i)))
                (baseCost (calculate i m l)))
             (js_mul (js_mul (safeNumber (trialPricePerPage i)) (safeNumber (pages i)))
                (safeNumber (riskRate i))))
      else None)"
  by (simp only: unfold_calculate)

lemma trialGPPercent_calculate:
  "trialGPPercent (calculate i m l) =
     (if (js_gt (safeNumber (trialPricePerPage i)) (Fin 0)
          \<and> js_gt (safeNumber (pages i)) (Fin 0)
          \<and> js_gt (baseCost (calculate i m l)) (Fin 0))
         \<and> js_strict_neq (js_mul (safeNumber (trialPricePerPage i)) (safeNumber (pages i)))
              (Fin 0)
      then Some (js_div
             (js_sub
                (js_sub (js_mul (safeNumber (trialPricePerPage i)) (safeNumber (pages i)))
                   (baseCost (calculate i m l)))
                (js_mul (js_mul (safeNumber (trialPricePerPage i)) (safeNumber (pages i)))
                   (safeNumber (riskRate i))))
             (js_mul (safeNumber (trialPricePerPage i)) (safeNumber (pages i))))
      else None)"
  by (simp only: unfold_calculate)

subsection \<open>The cost basis does not read gpRate\<close>

lemma gpRate_update_fields:
  "pages (i\<lparr>gpRate := g\<rparr>) = pages i"
  "laborPerPage (i\<lparr>gpRate := g\<rparr>) = laborPerPage i"
  "monthlySalaryPerWorker (i\<lparr>gpRate := g\<rparr>) = monthlySalaryPerWorker i"
  "scannerMonthly (i\<lparr>gpRate := g\<rparr>) = scannerMonthly i"
  "pcMonthly (i\<lparr>gpRate := g\<rparr>) = pcMonthly i"
  "workingDaysPerMonth (i\<lparr>gpRate := g\<rparr>) = workingDaysPerMonth i"
  "officePerJob (i\<lparr>gpRate := g\<rparr>) = officePerJob i"
  "riskRate (i\<lparr>gpRate := g\<rparr>) = riskRate i"
  "capacityPerPersonPerDay (i\<lparr>gpRate := g\<rparr>) = capacityPerPersonPerDay i"
  "workersManual (i\<lparr>gpRate := g\<rparr>) = workersManual i"
  "deadlineDays (i\<lparr>gpRate := g\<rparr>) = deadlineDays i"
  "trialPricePerPage (i\<lparr>gpRate := g\<rparr>) = trialPricePerPage i"
  by simp_all

lemma baseCost_gpRate:
  "baseCost (calculate (i\<lparr>gpRate := g\<rparr>) m l) = baseCost (calculate i m l)"
proof -
  have w: "workers (calculate (i\<lparr>gpRate := g\<rparr>) m l) = workers (calculate i m l)"
    by (simp only: workers_calculate gpRate_update_fields)
  have d: "daysNeeded (calculate (i\<lparr>gpRate := g\<rparr>) m l) = daysNeeded (calculate i m l)"
    by (simp only: daysNeeded_calculate w gpRate_update_fields)
  have k: "monthsNeeded (calculate (i\<lparr>gpRate := g\<rparr>) m l) = monthsNeeded (calculate i m l)"
    by (simp only: monthsNeeded_calculate d gpRate_update_fields)
  have r: "rentalTotal (calculate (i\<lparr>gpRate := g\<rparr>) m l) = rentalTotal (calculate i m l)"
    by (simp only: rentalTotal_calculate w k gpRate_update_fields)
  have c: "laborCost (calculate (i\<lparr>gpRate := g\<rparr>) m l) = laborCost (calculate i m l)"
    by (simp only: laborCost_calculate w k gpRate_update_fields)
  have f: "officeCost (calculate (i\<lparr>gpRate := g\<rparr>) m l) = officeCost (calculate i m l)"
    by (simp only: officeCost_calculate gpRate_update_fields)
  show ?thesis
    by (simp only: baseCost_calculate r c f)
qed

subsection \<open>Worked examples\<close>

text \<open>
  The result of \<open>calculate\<close> at the initial form state and at variations of it, evaluated
  by rewriting. Some of the fields of these results are not binary fractions (the days
  needed, the required revenue): there the double computed by the code differs from the
  value shown by its rounding.
\<close>

lemmas eval_calculate =
  calculate_def Let_def safeNumber_def push_if_def js_sub_def inf_times_def
  signed_inf_def signed_zero_def finite_result_zero finite_result_moderate

lemma calculate_initial_fixed:
  "calculate initialInput noDeadline perPage =
    \<lparr> valid = True, modeUsed = noDeadline, workers = Fin 1,
      daysNeeded = Fin (40 / 3), monthsNeeded = Fin 1,
      monthlyRentalPerWorker = Fin 7500, rentalTotal = Fin 7500,
      laborCost = Fin 6000, officeCost = Fin 10000, baseCost = Fin 23500,
      requiredRevenue = Some (Fin (1175000 / 31)),
      requiredPricePerPage = Some (Fin (235 / 124)),
      riskAmount = Some (Fin (35250 / 31)),
      targetGPAmount = Some (Fin (411250 / 31)),
      profitAfterRisk = Some (Fin (411250 / 31)),
      trialRevenue = Some (Fin 30000), trialRiskAmount = Some (Fin 900),
      trialProfit = Some (Fin 5600), trialGPPercent = Some (Fin (14 / 75)),
      errors = [] \<rparr>"
  by (simp add: eval_calculate initialInput_def)

lemma calculate_fractional_headcount:
  "calculate (initialInput\<lparr>workersManual := Fin (5 / 2)\<rparr>) noDeadline perPage =
    \<lparr> valid = True, modeUsed = noDeadline, workers = Fin (5 / 2),
      daysNeeded = Fin (16 / 3), monthsNeeded = Fin 1,
      monthlyRentalPerWorker = Fin 7500, rentalTotal = Fin 18750,
      laborCost = Fin 6000, officeCost = Fin 10000, baseCost = Fin 34750,
      requiredRevenue = Some (Fin (1737500 / 31)),
      requiredPricePerPage = Some (Fin (695 / 248)),
      riskAmount = Some (Fin (52125 / 31)),
      targetGPAmount = Some (Fin (608125 / 31)),
      profitAfterRisk = Some (Fin (608125 / 31)),
      trialRevenue = Some (Fin 30000), trialRiskAmount = Some (Fin 900),
      trialProfit = Some (Fin (- 5650)),
      trialGPPercent = Some (Fin (- (113 / 600))), errors = [] \<rparr>"
  by (simp add: eval_calculate initialInput_def)

lemma calculate_zero_capacity_deadline:
  "calculate (initialInput\<lparr>capacityPerPersonPerDay := Fin 0\<rparr>) withDeadline perPage =
    \<lparr> valid = False, modeUsed = withDeadline, workers = PInf,
      daysNeeded = Fin 0, monthsNeeded = Fin 0,
      monthlyRentalPerWorker = Fin 7500, rentalTotal = NaN,
      laborCost = Fin 6000, officeCost = Fin 10000, baseCost = NaN,
      requiredRevenue = None, requiredPricePerPage = None, riskAmount = None,
      targetGPAmount = None, profitAfterRisk = None, trialRevenue = None,
      trialRiskAmount = None, trialProfit = None, trialGPPercent = None,
      errors = [MsgCapacity] \<rparr>"
  by (simp add: eval_calculate initialInput_def)

lemma calculate_negative_wage:
  "calculate (initialInput\<lparr>laborPerPage := Fin (- 1)\<rparr>) noDeadline perPage =
    \<lparr> valid = True, modeUsed = noDeadline, workers = Fin 1,
      daysNeeded = Fin (40 / 3), monthsNeeded = Fin 1,
      monthlyRentalPerWorker = Fin 7500, rentalTotal = Fin 7500,
      laborCost = Fin (- 20000), officeCost = Fin 10000,
      baseCost = Fin (- 2500), requiredRevenue = None,
      requiredPricePerPage = None, riskAmount = None, targetGPAmount = None,
      profitAfterRisk = None, trialRevenue = None, trialRiskAmount = None,
      trialProfit = None, trialGPPercent = None, errors = [] \<rparr>"
  by (simp add: eval_calculate initialInput_def)

lemma calculate_zero_pages_zero_capacity:
  "calculate (initialInput\<lparr>pages := Fin 0, capacityPerPersonPerDay := Fin 0\<rparr>)
     withDeadline perPage =
    \<lparr> valid = False, modeUsed = withDeadline, workers = NaN, daysNeeded = Fin 0,
      monthsNeeded = Fin 0, monthlyRentalPerWorker = Fin 7500,
      rentalTotal = NaN, laborCost = Fin 0, officeCost = Fin 10000,
      baseCost = NaN, requiredRevenue = None, requiredPricePerPage = None,
      riskAmount = None, targetGPAmount = None, profitAfterRisk = None,
      trialRevenue = None, trialRiskAmount = None, trialProfit = None,
      trialGPPercent = None, errors = [MsgPages, MsgCapacity] \<rparr>"
  by (simp add: eval_calculate initialInput_def)

lemma calculate_lower_margin:
  "calculate (initialInput\<lparr>gpRate := Fin (1 / 5)\<rparr>) noDeadline perPage =
    \<lparr> valid = True, modeUsed = noDeadline, workers = Fin 1,
      daysNeeded = Fin (40 / 3), monthsNeeded = Fin 1,
      monthlyRentalPerWorker = Fin 7500, rentalTotal = Fin 7500,
      laborCost = Fin 6000, officeCost = Fin 10000, baseCost = Fin 23500,
      requiredRevenue = Some (Fin (2350000 / 77)),
      requiredPricePerPage = Some (Fin (235 / 154)),
      riskAmount = Some (Fin (70500 / 77)),
      targetGPAmount = Some (Fin (470000 / 77)),
      profitAfterRisk = Some (Fin (470000 / 77)),
      trialRevenue = Some (Fin 30000), trialRiskAmount = Some (Fin 900),
      trialProfit = Some (Fin 5600), trialGPPercent = Some (Fin (14 / 75)),
      errors = [] \<rparr>"
  by (simp add: eval_calculate initialInput_def)

text \<open>
  The result at the second input and at variations of it. Every value below is a binary
  fraction that a double holds exactly, or an infinity, a zero or NaN produced by the
  range of the doubles, so these are the results of the code itself.
\<close>

lemma calculate_binary_fixed:
  "calculate binaryInput noDeadline perPage =
    \<lparr> valid = True, modeUsed = noDeadline, workers = Fin 1,
      daysNeeded = Fin 20, monthsNeeded = Fin 2,
      monthlyRentalPerWorker = Fin 7500, rentalTotal = Fin 15000,
      laborCost = Fin 10240, officeCost = Fin 10000, baseCost = Fin 35240,
      requiredRevenue = Some (Fin 70480),
      requiredPricePerPage = Some (Fin (881 / 256)),
      riskAmount = Some (Fin 17620),
      targetGPAmount = Some (Fin 17620),
      profitAfterRisk = Some (Fin 17620),
      trialRevenue = Some (Fin 40960), trialRiskAmount = Some (Fin 10240),
      trialProfit = Some (Fin (- 4520)),
      trialGPPercent = Some (Fin (- (113 / 1024))), errors = [] \<rparr>"
  by (simp add: eval_calculate binaryInput_def)

lemma calculate_binary_deadline:
  "calculate binaryInput withDeadline salary =
    \<lparr> valid = True, modeUsed = withDeadline, workers = Fin 2,
      daysNeeded = Fin 10, monthsNeeded = Fin 1,
      monthlyRentalPerWorker = Fin 7500, rentalTotal = Fin 15000,
      laborCost = Fin 30000, officeCost = Fin 10000, baseCost = Fin 55000,
      requiredRevenue = Some (Fin 110000),
      requiredPricePerPage = Some (Fin (1375 / 256)),
      riskAmount = Some (Fin 27500),
      targetGPAmount = Some (Fin 27500),
      profitAfterRisk = Some (Fin 27500),
      trialRevenue = Some (Fin 40960), trialRiskAmount = Some (Fin 10240),
      trialProfit = Some (Fin (- 24280)),
      trialGPPercent = Some (Fin (- (607 / 1024))), errors = [] \<rparr>"
  by (simp add: eval_calculate binaryInput_def)

lemma calculate_binary_fallback:
  "calculate (binaryInput\<lparr>deadlineDays := Fin 0\<rparr>) withDeadline perPage =
    \<lparr> valid = True, modeUsed = withDeadline, workers = Fin 1,
      daysNeeded = Fin 20, monthsNeeded = Fin 2,
      monthlyRentalPerWorker = Fin 7500, rentalTotal = Fin 15000,
      laborCost = Fin 10240, officeCost = Fin 10000, baseCost = Fin 35240,
      requiredRevenue = Some (Fin 70480),
      requiredPricePerPage = Some (Fin (881 / 256)),
      riskAmount = Some (Fin 17620),
      targetGPAmount = Some (Fin 17620),
      profitAfterRisk = Some (Fin 17620),
      trialRevenue = Some (Fin 40960), trialRiskAmount = Some (Fin 10240),
      trialProfit = Some (Fin (- 4520)),
      trialGPPercent = Some (Fin (- (113 / 1024))), errors = [] \<rparr>"
  by (simp add: eval_calculate binaryInput_def)

lemma calculate_binary_fractional:
  "calculate (binaryInput\<lparr>workersManual := Fin (5 / 2)\<rparr>) noDeadline perPage =
    \<lparr> valid = True, modeUsed = noDeadline, workers = Fin (5 / 2),
      daysNeeded = Fin 8, monthsNeeded = Fin 1,
      monthlyRentalPerWorker = Fin 7500, rentalTotal = Fin 18750,
      laborCost = Fin 10240, officeCost = Fin 10000, baseCost = Fin 38990,
      requiredRevenue = Some (Fin 77980),
      requiredPricePerPage = Some (Fin (3899 / 1024)),
      riskAmount = Some (Fin 19495),
      targetGPAmount = Some (Fin 19495),
      profitAfterRisk = Some (Fin 19495),
      trialRevenue = Some (Fin 40960), trialRiskAmount = Some (Fin 10240),
      trialProfit = Some (Fin (- 8270)),
      trialGPPercent = Some (Fin (- (827 / 4096))), errors = [] \<rparr>"
  by (simp add: eval_calculate binaryInput_def)

lemma calculate_binary_rates_too_high:
  "calculate (binaryInput\<lparr>riskRate := Fin (1 / 2), gpRate := Fin (3 / 4)\<rparr>)
     noDeadline perPage =
    \<lparr> valid = False, modeUsed = noDeadline, workers = Fin 1,
      daysNeeded = Fin 20, monthsNeeded = Fin 2,
      monthlyRentalPerWorker = Fin 7500, rentalTotal = Fin 15000,
      laborCost = Fin 10240, officeCost = Fin 10000, baseCost = Fin 35240,
      requiredRevenue = None, requiredPricePerPage = None, riskAmount = None,
      targetGPAmount = None, profitAfterRisk = None,
      trialRevenue = Some (Fin 40960), trialRiskAmount = Some (Fin 20480),
      trialProfit = Some (Fin (- 14760)),
      trialGPPercent = Some (Fin (- (369 / 1024))), errors = [MsgRiskGp] \<rparr>"
  by (simp add: eval_calculate binaryInput_def)

lemma calculate_binary_no_trial_price:
  "calculate (binaryInput\<lparr>trialPricePerPage := Fin 0\<rparr>) noDeadline perPage =
    \<lparr> valid = True, modeUsed = noDeadline, workers = Fin 1,
      daysNeeded = Fin 20, monthsNeeded = Fin 2,
      monthlyRentalPerWorker = Fin 7500, rentalTotal = Fin 15000,
      laborCost = Fin 10240, officeCost = Fin 10000, baseCost = Fin 35240,
      requiredRevenue = Some (Fin 70480),
      requiredPricePerPage = Some (Fin (881 / 256)),
      riskAmount = Some (Fin 17620),
      targetGPAmount = Some (Fin 17620),
      profitAfterRisk = Some (Fin 17620),
      trialRevenue = None, trialRiskAmount = None,
      trialProfit = None, trialGPPercent = None, errors = [] \<rparr>"
  by (simp add: eval_calculate binaryInput_def)

lemma calculate_binary_zero_capacity:
  "calculate (binaryInput\<lparr>capacityPerPersonPerDay := Fin 0\<rparr>) withDeadline perPage =
    \<lparr> valid = False, modeUsed = withDeadline, workers = PInf,
      daysNeeded = Fin 0, monthsNeeded = Fin 0,
      monthlyRentalPerWorker = Fin 7500, rentalTotal = NaN,
      laborCost = Fin 10240, officeCost = Fin 10000, baseCost = NaN,
      requiredRevenue = None, requiredPricePerPage = None, riskAmount = None,
      targetGPAmount = None, profitAfterRisk = None, trialRevenue = None,
      trialRiskAmount = None, trialProfit = None, trialGPPercent = None,
      errors = [MsgCapacity] \<rparr>"
  by (simp add: eval_calculate binaryInput_def)

subsection \<open>Worked examples at the edge of the range\<close>

text \<open>
  The fields of the result at the three inputs at the edge of the range, computed one
  after the other. The bounds of \<open>finite_result\<close> are evaluated as they stand.
\<close>

lemmas eval_fields =
  js_sub_def inf_times_def signed_inf_def signed_zero_def
  finite_result_def overflow_bound_def underflow_bound_def

lemma tinyPagesInput_fields:
  "safeNumber (pages tinyPagesInput) = Fin (1 / 2 ^ 600)"
  "safeNumber (laborPerPage tinyPagesInput) = Fin 0"
  "safeNumber (monthlySalaryPerWorker tinyPagesInput) = Fin 15000"
  "safeNumber (scannerMonthly tinyPagesInput) = Fin 4500"
  "safeNumber (pcMonthly tinyPagesInput) = Fin 3000"
  "safeNumber (workingDaysPerMonth tinyPagesInput) = Fin 16"
  "safeNumber (officePerJob tinyPagesInput) = Fin 10000"
  "safeNumber (riskRate tinyPagesInput) = Fin (1 / 4)"
  "safeNumber (gpRate tinyPagesInput) = Fin (1 / 4)"
  "safeNumber (capacityPerPersonPerDay tinyPagesInput) = Fin 1024"
  "safeNumber (workersManual tinyPagesInput) = Fin 1"
  "safeNumber (deadlineDays tinyPagesInput) = Fin 16"
  "safeNumber (trialPricePerPage tinyPagesInput) = Fin (1 / 2 ^ 600)"
  by (simp_all add: tinyPagesInput_def binaryInput_def safeNumber_def)

lemma tinyPagesInput_costs:
  "workers (calculate tinyPagesInput noDeadline perPage) = Fin 1"
  "daysNeeded (calculate tinyPagesInput noDeadline perPage) = Fin (1 / 2 ^ 610)"
  "monthsNeeded (calculate tinyPagesInput noDeadline perPage) = Fin 1"
  "rentalTotal (calculate tinyPagesInput noDeadline perPage) = Fin 7500"
  "laborCost (calculate tinyPagesInput noDeadline perPage) = Fin 0"
  "officeCost (calculate tinyPagesInput noDeadline perPage) = Fin 10000"
  "baseCost (calculate tinyPagesInput noDeadline perPage) = Fin 17500"
proof -
  show w: "workers (calculate tinyPagesInput noDeadline perPage) = Fin 1"
    by (simp add: workers_calculate tinyPagesInput_fields eval_fields)
  show d: "daysNeeded (calculate tinyPagesInput noDeadline perPage) = Fin (1 / 2 ^ 610)"
    by (simp add: daysNeeded_calculate w tinyPagesInput_fields eval_fields)
  show k: "monthsNeeded (calculate tinyPagesInput noDeadline perPage) = Fin 1"
    by (simp add: monthsNeeded_calculate d tinyPagesInput_fields eval_fields)
  show r: "rentalTotal (calculate tinyPagesInput noDeadline perPage) = Fin 7500"
    by (simp add: rentalTotal_calculate w k tinyPagesInput_fields eval_fields)
  show c: "laborCost (calculate tinyPagesInput noDeadline perPage) = Fin 0"
    by (simp add: laborCost_calculate tinyPagesInput_fields eval_fields)
  show f: "officeCost (calculate tinyPagesInput noDeadline perPage) = Fin 10000"
    by (simp add: officeCost_calculate tinyPagesInput_fields eval_fields)
  show "baseCost (calculate tinyPagesInput noDeadline perPage) = Fin 17500"
    by (simp add: baseCost_calculate r c f eval_fields)
qed

lemma tinyPagesInput_trial:
  "trialRevenue (calculate tinyPagesInput noDeadline perPage) = Some (Fin 0)"
  "trialRiskAmount (calculate tinyPagesInput noDeadline perPage) = Some (Fin 0)"
  "trialProfit (calculate tinyPagesInput noDeadline perPage) = Some (Fin (- 17500))"
  "trialGPPercent (calculate tinyPagesInput noDeadline perPage) = None"
  by (simp_all add: trialRevenue_calculate trialRiskAmount_calculate trialProfit_calculate
      trialGPPercent_calculate tinyPagesInput_costs tinyPagesInput_fields eval_fields)






section \<open>The claims\<close>

text \<open>
  C1. Whenever the required-revenue branch is populated, its fields are, in the arithmetic
  of the code and over the sanitized inputs: the required revenue
  \<open>baseCost / (1 - riskRate - gpRate)\<close>, the risk amount \<open>requiredRevenue * riskRate\<close>, the
  target GP amount \<open>requiredRevenue * gpRate\<close>, the profit after risk
  \<open>requiredRevenue - baseCost - riskAmount\<close> and the required price per page
  \<open>requiredRevenue / pages\<close>; the sanitized page count is then greater than 0.
\<close>

theorem required_revenue_formulas:
  assumes "requiredRevenue (calculate i m l) = Some R"
  shows "R = js_div (baseCost (calculate i m l))
               (js_sub (js_sub (Fin 1) (safeNumber (riskRate i))) (safeNumber (gpRate i)))
         \<and> riskAmount (calculate i m l) = Some (js_mul R (safeNumber (riskRate i)))
         \<and> targetGPAmount (calculate i m l) = Some (js_mul R (safeNumber (gpRate i)))
         \<and> profitAfterRisk (calculate i m l) =
             Some (js_sub (js_sub R (baseCost (calculate i m l)))
                     (js_mul R (safeNumber (riskRate i))))
         \<and> requiredPricePerPage (calculate i m l) = Some (js_div R (safeNumber (pages i)))
         \<and> js_gt (safeNumber (pages i)) (Fin 0)"
proof -
  from assms have gate:
    "js_gt (baseCost (calculate i m l)) (Fin 0)
     \<and> js_gt (js_sub (js_sub (Fin 1) (safeNumber (riskRate i))) (safeNumber (gpRate i))) (Fin 0)
     \<and> errors (calculate i m l) = []"
    by (simp add: requiredRevenue_calculate split: if_splits)
  then have pos: "js_gt (safeNumber (pages i)) (Fin 0)"
    by (blast intro: errors_empty_pages)
  from assms gate have R: "R = js_div (baseCost (calculate i m l))
               (js_sub (js_sub (Fin 1) (safeNumber (riskRate i))) (safeNumber (gpRate i)))"
    by (simp add: requiredRevenue_calculate)
  from gate pos show ?thesis
    by (simp add: R riskAmount_calculate targetGPAmount_calculate
        profitAfterRisk_calculate requiredPricePerPage_calculate)
qed

text \<open>The theorem at a concrete input.\<close>

theorem required_revenue_formulas_witness:
  "requiredRevenue (calculate binaryInput noDeadline perPage) = Some (Fin 70480)
   \<and> riskAmount (calculate binaryInput noDeadline perPage) = Some (Fin 17620)
   \<and> targetGPAmount (calculate binaryInput noDeadline perPage) = Some (Fin 17620)
   \<and> profitAfterRisk (calculate binaryInput noDeadline perPage) = Some (Fin 17620)
   \<and> requiredPricePerPage (calculate binaryInput noDeadline perPage) = Some (Fin (881 / 256))"
proof -
  have h: "requiredRevenue (calculate binaryInput noDeadline perPage) = Some (Fin 70480)"
    by (simp add: calculate_binary_fixed)
  have e: "riskAmount (calculate binaryInput noDeadline perPage) = Some (Fin 17620)
      \<and> targetGPAmount (calculate binaryInput noDeadline perPage) = Some (Fin 17620)
      \<and> profitAfterRisk (calculate binaryInput noDeadline perPage) = Some (Fin 17620)
      \<and> requiredPricePerPage (calculate binaryInput noDeadline perPage)
          = Some (Fin (881 / 256))"
    by (simp add: calculate_binary_fixed)
  from required_revenue_formulas [OF h] h e show ?thesis
    by blast
qed




text \<open>
  C3. In deadline mode with \<open>deadlineDays\<close> greater than 0 the headcount is
  \<open>Math.max(1, Math.ceil(pages / (capacity * deadlineDays)))\<close>, in the arithmetic of the
  code; in every other case (fixed headcount, or deadline mode with \<open>deadlineDays\<close> at most
  0) it is \<open>Math.max(1, workersManual)\<close>, the greater of 1 and the sanitized
  \<open>workersManual\<close>. The errors list does not depend on the staffing mode, on \<open>deadlineDays\<close>
  or on \<open>workersManual\<close>, so the fallback raises no validation error.
\<close>

theorem staffing_derivation:
  "workers (calculate i m l) =
     (if m = withDeadline \<and> js_gt (safeNumber (deadlineDays i)) (Fin 0)
      then js_max (Fin 1)
             (js_ceil (js_div (safeNumber (pages i))
                (js_mul (safeNumber (capacityPerPersonPerDay i)) (safeNumber (deadlineDays i)))))
      else js_max (Fin 1) (safeNumber (workersManual i)))
   \<and> (\<not> (m = withDeadline \<and> 0 < san (deadlineDays i)) \<longrightarrow>
        workers (calculate i m l) = Fin (max 1 (san (workersManual i))))
   \<and> errors (calculate (i\<lparr>deadlineDays := d, workersManual := w\<rparr>) m' l')
        = errors (calculate i m l)"
proof -
  have 1: "workers (calculate i m l) =
     (if m = withDeadline \<and> js_gt (safeNumber (deadlineDays i)) (Fin 0)
      then js_max (Fin 1)
             (js_ceil (js_div (safeNumber (pages i))
                (js_mul (safeNumber (capacityPerPersonPerDay i)) (safeNumber (deadlineDays i)))))
      else js_max (Fin 1) (safeNumber (workersManual i)))"
    by (rule workers_calculate)
  have 2: "errors (calculate (i\<lparr>deadlineDays := d, workersManual := w\<rparr>) m' l')
        = errors (calculate i m l)"
    by (simp add: errors_calculate)
  have 3: "workers (calculate i m l) = Fin (max 1 (san (workersManual i)))"
    if "\<not> (m = withDeadline \<and> 0 < san (deadlineDays i))"
    by (simp only: workers_calculate js_gt_safeNumber js_max_safeNumber that if_False)
  from 1 2 3 show ?thesis
    by blast
qed

text \<open>The theorem at concrete inputs: a deadline of 16 days, and a deadline of 0 days.\<close>

theorem staffing_derivation_witness:
  "workers (calculate binaryInput withDeadline salary) = Fin 2
   \<and> workers (calculate (binaryInput\<lparr>deadlineDays := Fin 0\<rparr>) withDeadline perPage) = Fin 1
   \<and> errors (calculate (binaryInput\<lparr>deadlineDays := Fin 0\<rparr>) withDeadline perPage) = []"
  using staffing_derivation
      [where i = binaryInput and m = withDeadline and l = salary]
    staffing_derivation
      [where i = "binaryInput\<lparr>deadlineDays := Fin 0\<rparr>" and m = withDeadline and l = perPage]
  by (simp add: calculate_binary_deadline calculate_binary_fallback)

text \<open>
  C4. For every input and both modes, the cost basis of the result is the sum of its
  rental total, labour cost and office cost, whether or not there are validation errors.
\<close>

theorem baseCost_is_sum:
  "baseCost (calculate i m l) =
     js_add (js_add (rentalTotal (calculate i m l)) (laborCost (calculate i m l)))
       (officeCost (calculate i m l))"
  by (simp only: calculate_def Let_def CalcResult.select_convs)

text \<open>The theorem at concrete inputs.\<close>

theorem baseCost_is_sum_witness:
  "baseCost (calculate initialInput noDeadline perPage) = Fin 23500
   \<and> rentalTotal (calculate initialInput noDeadline perPage) = Fin 7500
   \<and> laborCost (calculate initialInput noDeadline perPage) = Fin 6000
   \<and> officeCost (calculate initialInput noDeadline perPage) = Fin 10000
   \<and> baseCost (calculate (initialInput\<lparr>capacityPerPersonPerDay := Fin 0\<rparr>)
        withDeadline perPage) = NaN
   \<and> rentalTotal (calculate (initialInput\<lparr>capacityPerPersonPerDay := Fin 0\<rparr>)
        withDeadline perPage) = NaN"
  using baseCost_is_sum [where i = initialInput and m = noDeadline and l = perPage]
    baseCost_is_sum
      [where i = "initialInput\<lparr>capacityPerPersonPerDay := Fin 0\<rparr>" and m = withDeadline
         and l = perPage]
  by (simp add: calculate_initial_fixed calculate_zero_capacity_deadline)

text \<open>
  C5 (counterexample). For a job of \<open>2^-600\<close> pages at a trial price of \<open>2^-600\<close> per
  page, both greater than 0, and a cost basis of 17500, the condition of the trial branch
  holds; the trial revenue \<open>2^-1200\<close> is below the smallest double and is computed as 0,
  so \<open>trialRevenue\<close>, \<open>trialRiskAmount\<close> and \<open>trialProfit\<close> are non-null while
  \<open>trialGPPercent\<close> is null.
\<close>

theorem trial_underflow_counterexample:
  "js_gt (safeNumber (trialPricePerPage tinyPagesInput)) (Fin 0)
   \<and> js_gt (safeNumber (pages tinyPagesInput)) (Fin 0)
   \<and> js_gt (baseCost (calculate tinyPagesInput noDeadline perPage)) (Fin 0)
   \<and> trialRevenue (calculate tinyPagesInput noDeadline perPage) = Some (Fin 0)
   \<and> trialRiskAmount (calculate tinyPagesInput noDeadline perPage) = Some (Fin 0)
   \<and> trialProfit (calculate tinyPagesInput noDeadline perPage) = Some (Fin (- 17500))
   \<and> trialGPPercent (calculate tinyPagesInput noDeadline perPage) = None"
  by (simp add: tinyPagesInput_fields tinyPagesInput_costs tinyPagesInput_trial)

text \<open>
  C5 (as amended). Each of \<open>trialRevenue\<close>, \<open>trialRiskAmount\<close> and \<open>trialProfit\<close> is non-null
  exactly when the sanitized trial price per page is greater than 0, the sanitized page
  count is greater than 0 and the cost basis is greater than 0. \<open>trialGPPercent\<close> is
  non-null exactly when, in addition, the computed trial revenue
  \<open>trialPricePerPage * pages\<close> is not zero. Neither the errors list nor the
  required-revenue branch enters these conditions.
\<close>

theorem trial_gate:
  "(trialRevenue (calculate i m l) \<noteq> None) =
     (js_gt (safeNumber (trialPricePerPage i)) (Fin 0) \<and> js_gt (safeNumber (pages i)) (Fin 0)
      \<and> js_gt (baseCost (calculate i m l)) (Fin 0))
   \<and> (trialRiskAmount (calculate i m l) \<noteq> None) =
     (js_gt (safeNumber (trialPricePerPage i)) (Fin 0) \<and> js_gt (safeNumber (pages i)) (Fin 0)
      \<and> js_gt (baseCost (calculate i m l)) (Fin 0))
   \<and> (trialProfit (calculate i m l) \<noteq> None) =
     (js_gt (safeNumber (trialPricePerPage i)) (Fin 0) \<and> js_gt (safeNumber (pages i)) (Fin 0)
      \<and> js_gt (baseCost (calculate i m l)) (Fin 0))
   \<and> (trialGPPercent (calculate i m l) \<noteq> None) =
     ((js_gt (safeNumber (trialPricePerPage i)) (Fin 0) \<and> js_gt (safeNumber (pages i)) (Fin 0)
       \<and> js_gt (baseCost (calculate i m l)) (Fin 0))
      \<and> js_strict_neq (js_mul (safeNumber (trialPricePerPage i)) (safeNumber (pages i)))
           (Fin 0))"
proof -
  have 1: "(trialRevenue (calculate i m l) \<noteq> None) =
     (js_gt (safeNumber (trialPricePerPage i)) (Fin 0) \<and> js_gt (safeNumber (pages i)) (Fin 0)
      \<and> js_gt (baseCost (calculate i m l)) (Fin 0))"
    by (simp add: trialRevenue_calculate)
  have 2: "(trialRiskAmount (calculate i m l) \<noteq> None) =
     (js_gt (safeNumber (trialPricePerPage i)) (Fin 0) \<and> js_gt (safeNumber (pages i)) (Fin 0)
      \<and> js_gt (baseCost (calculate i m l)) (Fin 0))"
    by (simp add: trialRiskAmount_calculate)
  have 3: "(trialProfit (calculate i m l) \<noteq> None) =
     (js_gt (safeNumber (trialPricePerPage i)) (Fin 0) \<and> js_gt (safeNumber (pages i)) (Fin 0)
      \<and> js_gt (baseCost (calculate i m l)) (Fin 0))"
    by (simp add: trialProfit_calculate)
  have 4: "(trialGPPercent (calculate i m l) \<noteq> None) =
     ((js_gt (safeNumber (trialPricePerPage i)) (Fin 0) \<and> js_gt (safeNumber (pages i)) (Fin 0)
       \<and> js_gt (baseCost (calculate i m l)) (Fin 0))
      \<and> js_strict_neq (js_mul (safeNumber (trialPricePerPage i)) (safeNumber (pages i)))
           (Fin 0))"
    by (simp add: trialGPPercent_calculate)
  from 1 2 3 4 show ?thesis
    by blast
qed

text \<open>
  The theorem at concrete inputs: a populated trial branch beside a validation error and
  an empty required-revenue branch, and a trial price of 0.
\<close>

theorem trial_gate_witness:
  "errors (calculate (binaryInput\<lparr>riskRate := Fin (1 / 2), gpRate := Fin (3 / 4)\<rparr>)
      noDeadline perPage) = [MsgRiskGp]
   \<and> requiredRevenue
        (calculate (binaryInput\<lparr>riskRate := Fin (1 / 2), gpRate := Fin (3 / 4)\<rparr>)
           noDeadline perPage) = None
   \<and> trialRevenue
        (calculate (binaryInput\<lparr>riskRate := Fin (1 / 2), gpRate := Fin (3 / 4)\<rparr>)
           noDeadline perPage) = Some (Fin 40960)
   \<and> trialRiskAmount
        (calculate (binaryInput\<lparr>riskRate := Fin (1 / 2), gpRate := Fin (3 / 4)\<rparr>)
           noDeadline perPage) = Some (Fin 20480)
   \<and> trialProfit
        (calculate (binaryInput\<lparr>riskRate := Fin (1 / 2), gpRate := Fin (3 / 4)\<rparr>)
           noDeadline perPage) = Some (Fin (- 14760))
   \<and> trialGPPercent
        (calculate (binaryInput\<lparr>riskRate := Fin (1 / 2), gpRate := Fin (3 / 4)\<rparr>)
           noDeadline perPage) = Some (Fin (- (369 / 1024)))
   \<and> trialRevenue (calculate (binaryInput\<lparr>trialPricePerPage := Fin 0\<rparr>) noDeadline perPage)
       = None
   \<and> trialRiskAmount (calculate (binaryInput\<lparr>trialPricePerPage := Fin 0\<rparr>) noDeadline perPage)
       = None
   \<and> trialProfit (calculate (binaryInput\<lparr>trialPricePerPage := Fin 0\<rparr>) noDeadline perPage)
       = None
   \<and> trialGPPercent (calculate (binaryInput\<lparr>trialPricePerPage := Fin 0\<rparr>) noDeadline perPage)
       = None"
  using trial_gate
      [where i = "binaryInput\<lparr>riskRate := Fin (1 / 2), gpRate := Fin (3 / 4)\<rparr>"
         and m = noDeadline and l = perPage]
    trial_gate
      [where i = "binaryInput\<lparr>trialPricePerPage := Fin 0\<rparr>" and m = noDeadline
         and l = perPage]
  by (simp add: calculate_binary_rates_too_high calculate_binary_no_trial_price)

text \<open>
  C6. \<open>daysNeeded\<close> is \<open>pages / (capacity * workers)\<close> when the sanitized capacity and the
  chosen headcount are greater than 0, and 0 otherwise; \<open>monthsNeeded\<close> is
  \<open>Math.ceil(daysNeeded / workingDaysPerMonth)\<close> when the sanitized \<open>workingDaysPerMonth\<close>
  and \<open>daysNeeded\<close> are greater than 0, and 0 otherwise; all in the arithmetic of the code.
\<close>

theorem duration_derivation:
  "daysNeeded (calculate i m l) =
     (if js_gt (safeNumber (capacityPerPersonPerDay i)) (Fin 0)
         \<and> js_gt (workers (calculate i m l)) (Fin 0)
      then js_div (safeNumber (pages i))
             (js_mul (safeNumber (capacityPerPersonPerDay i)) (workers (calculate i m l)))
      else Fin 0)
   \<and> monthsNeeded (calculate i m l) =
     (if js_gt (safeNumber (workingDaysPerMonth i)) (Fin 0)
         \<and> js_gt (daysNeeded (calculate i m l)) (Fin 0)
      then js_ceil (js_div (daysNeeded (calculate i m l)) (safeNumber (workingDaysPerMonth i)))
      else Fin 0)
   \<and> (san (capacityPerPersonPerDay i) \<le> 0 \<longrightarrow> daysNeeded (calculate i m l) = Fin 0)
   \<and> (san (workingDaysPerMonth i) \<le> 0 \<longrightarrow> monthsNeeded (calculate i m l) = Fin 0)"
proof -
  have 1: "daysNeeded (calculate i m l) =
     (if js_gt (safeNumber (capacityPerPersonPerDay i)) (Fin 0)
         \<and> js_gt (workers (calculate i m l)) (Fin 0)
      then js_div (safeNumber (pages i))
             (js_mul (safeNumber (capacityPerPersonPerDay i)) (workers (calculate i m l)))
      else Fin 0)"
    by (rule daysNeeded_calculate)
  have 2: "monthsNeeded (calculate i m l) =
     (if js_gt (safeNumber (workingDaysPerMonth i)) (Fin 0)
         \<and> js_gt (daysNeeded (calculate i m l)) (Fin 0)
      then js_ceil (js_div (daysNeeded (calculate i m l)) (safeNumber (workingDaysPerMonth i)))
      else Fin 0)"
    by (rule monthsNeeded_calculate)
  have 3: "daysNeeded (calculate i m l) = Fin 0" if "san (capacityPerPersonPerDay i) \<le> 0"
    using that by (simp add: daysNeeded_calculate js_gt_safeNumber)
  have 4: "monthsNeeded (calculate i m l) = Fin 0" if "san (workingDaysPerMonth i) \<le> 0"
    using that by (simp add: monthsNeeded_calculate js_gt_safeNumber)
  from 1 2 3 4 show ?thesis
    by blast
qed

text \<open>
  The theorem at concrete inputs: one worker and 16 working days per month, and a capacity
  of 0.
\<close>

theorem duration_derivation_witness:
  "workers (calculate binaryInput noDeadline perPage) = Fin 1
   \<and> daysNeeded (calculate binaryInput noDeadline perPage) = Fin 20
   \<and> monthsNeeded (calculate binaryInput noDeadline perPage) = Fin 2
   \<and> san (capacityPerPersonPerDay (binaryInput\<lparr>capacityPerPersonPerDay := Fin 0\<rparr>)) = 0
   \<and> daysNeeded (calculate (binaryInput\<lparr>capacityPerPersonPerDay := Fin 0\<rparr>)
        withDeadline perPage) = Fin 0
   \<and> monthsNeeded (calculate (binaryInput\<lparr>capacityPerPersonPerDay := Fin 0\<rparr>)
        withDeadline perPage) = Fin 0"
  using duration_derivation [where i = binaryInput and m = noDeadline and l = perPage]
    duration_derivation
      [where i = "binaryInput\<lparr>capacityPerPersonPerDay := Fin 0\<rparr>" and m = withDeadline
         and l = perPage]
  by (simp add: calculate_binary_fixed calculate_binary_zero_capacity)

text \<open>
  C7 (counterexample). With a fixed headcount of 2.5 the \<open>workers\<close> field of the result is 2.5, which is
  not a whole number: the claim that \<open>workers\<close> is always an integer that is at least 1
  fails on the code.
\<close>

theorem fractional_headcount_counterexample:
  "\<not> integer_ge1
       (workers (calculate (initialInput\<lparr>workersManual := Fin (5 / 2)\<rparr>) noDeadline perPage))"
  by (simp add: calculate_fractional_headcount)

text \<open>
  C7 (as amended). When the headcount comes from \<open>workersManual\<close> (fixed headcount, or
  deadline mode with \<open>deadlineDays\<close> at most 0), \<open>workers\<close> is a finite number that is at least
  1, and it is a whole number exactly when the sanitized \<open>workersManual\<close> is a whole number or
  at most 1. When the headcount is derived from a positive deadline and the computed
  quotient \<open>pages / (capacity * deadlineDays)\<close> is a finite number, \<open>workers\<close> is a whole
  number that is at least 1.
\<close>

theorem workers_at_least_one:
  "(\<not> (m = withDeadline \<and> 0 < san (deadlineDays i)) \<longrightarrow>
      (\<exists>w. workers (calculate i m l) = Fin w \<and> 1 \<le> w)
      \<and> integer_ge1 (workers (calculate i m l))
          = (san (workersManual i) \<le> 1
             \<or> of_int \<lfloor>san (workersManual i)\<rfloor> = san (workersManual i)))
   \<and> (m = withDeadline \<and> 0 < san (deadlineDays i)
        \<and> isFinite (js_div (safeNumber (pages i))
             (js_mul (safeNumber (capacityPerPersonPerDay i)) (safeNumber (deadlineDays i))))
      \<longrightarrow> integer_ge1 (workers (calculate i m l)))"
proof -
  have manual: "workers (calculate i m l) = Fin (max 1 (san (workersManual i)))"
    if "\<not> (m = withDeadline \<and> 0 < san (deadlineDays i))"
    by (simp only: workers_calculate js_gt_safeNumber js_max_safeNumber that if_False)
  have int: "integer_ge1 (Fin (max 1 (san (workersManual i))))
          = (san (workersManual i) \<le> 1
             \<or> of_int \<lfloor>san (workersManual i)\<rfloor> = san (workersManual i))"
    by (auto simp add: max_def)
  have deadline: "integer_ge1 (workers (calculate i m l))"
    if "m = withDeadline" "0 < san (deadlineDays i)"
      "isFinite (js_div (safeNumber (pages i))
         (js_mul (safeNumber (capacityPerPersonPerDay i)) (safeNumber (deadlineDays i))))"
    using that integer_ge1_max_ceil [OF that(3)]
    by (simp add: workers_calculate js_gt_safeNumber)
  from manual int deadline show ?thesis
    by (simp add: max_def)
qed

text \<open>
  The theorem at concrete inputs: a fixed headcount of 2.5, and a deadline of 16 days, for
  which the quotient is 1.25.
\<close>

theorem workers_at_least_one_witness:
  "workers (calculate (binaryInput\<lparr>workersManual := Fin (5 / 2)\<rparr>) noDeadline perPage)
     = Fin (5 / 2)
   \<and> san (deadlineDays binaryInput) = 16
   \<and> js_div (safeNumber (pages binaryInput))
        (js_mul (safeNumber (capacityPerPersonPerDay binaryInput))
           (safeNumber (deadlineDays binaryInput))) = Fin (5 / 4)
   \<and> workers (calculate binaryInput withDeadline salary) = Fin 2
   \<and> integer_ge1 (workers (calculate binaryInput withDeadline salary))"
proof -
  have q: "js_div (safeNumber (pages binaryInput))
        (js_mul (safeNumber (capacityPerPersonPerDay binaryInput))
           (safeNumber (deadlineDays binaryInput))) = Fin (5 / 4)"
    by (simp add: binaryInput_def safeNumber_def finite_result_moderate)
  have s: "san (deadlineDays binaryInput) = 16"
    by (simp add: binaryInput_def)
  have e: "workers (calculate (binaryInput\<lparr>workersManual := Fin (5 / 2)\<rparr>) noDeadline perPage)
       = Fin (5 / 2)
     \<and> workers (calculate binaryInput withDeadline salary) = Fin 2"
    by (simp add: calculate_binary_fractional calculate_binary_deadline)
  from workers_at_least_one
      [where i = "binaryInput\<lparr>workersManual := Fin (5 / 2)\<rparr>" and m = noDeadline
         and l = perPage]
    workers_at_least_one [where i = binaryInput and m = withDeadline and l = salary]
    q s e
  show ?thesis
    by simp
qed




text \<open>
  C9. Two inputs that differ only in \<open>gpRate\<close> give the same four trial fields, for the
  same staffing mode and labour mode.
\<close>

theorem trial_ignores_gpRate:
  "trialRevenue (calculate (i\<lparr>gpRate := g\<rparr>) m l) = trialRevenue (calculate i m l)
   \<and> trialRiskAmount (calculate (i\<lparr>gpRate := g\<rparr>) m l) = trialRiskAmount (calculate i m l)
   \<and> trialProfit (calculate (i\<lparr>gpRate := g\<rparr>) m l) = trialProfit (calculate i m l)
   \<and> trialGPPercent (calculate (i\<lparr>gpRate := g\<rparr>) m l) = trialGPPercent (calculate i m l)"
  by (simp only: trialRevenue_calculate trialRiskAmount_calculate trialProfit_calculate
      trialGPPercent_calculate baseCost_gpRate gpRate_update_fields simp_thms)

text \<open>The theorem at concrete inputs.\<close>

theorem trial_ignores_gpRate_witness:
  "trialRevenue (calculate (initialInput\<lparr>gpRate := Fin (1 / 5)\<rparr>) noDeadline perPage)
     = Some (Fin 30000)
   \<and> trialRevenue (calculate initialInput noDeadline perPage) = Some (Fin 30000)
   \<and> trialRiskAmount (calculate (initialInput\<lparr>gpRate := Fin (1 / 5)\<rparr>) noDeadline perPage)
     = Some (Fin 900)
   \<and> trialRiskAmount (calculate initialInput noDeadline perPage) = Some (Fin 900)
   \<and> trialProfit (calculate (initialInput\<lparr>gpRate := Fin (1 / 5)\<rparr>) noDeadline perPage)
     = Some (Fin 5600)
   \<and> trialProfit (calculate initialInput noDeadline perPage) = Some (Fin 5600)
   \<and> trialGPPercent (calculate (initialInput\<lparr>gpRate := Fin (1 / 5)\<rparr>) noDeadline perPage)
     = Some (Fin (14 / 75))
   \<and> trialGPPercent (calculate initialInput noDeadline perPage) = Some (Fin (14 / 75))
   \<and> targetGPAmount (calculate (initialInput\<lparr>gpRate := Fin (1 / 5)\<rparr>) noDeadline perPage)
     = Some (Fin (470000 / 77))
   \<and> targetGPAmount (calculate initialInput noDeadline perPage) = Some (Fin (411250 / 31))"
  using trial_ignores_gpRate
      [where i = initialInput and g = "Fin (1 / 5)" and m = noDeadline and l = perPage]
  by (simp add: calculate_initial_fixed calculate_lower_margin)

text \<open>
  C10. \<open>safeNumber\<close> returns every finite value unchanged, negative ones included,
  and replaces NaN and both infinities by 0. The errors list does not depend on any of the
  monetary fields. There is an input with a negative \<open>laborPerPage\<close>, positive pages, capacity
  and working days per month, and \<open>riskRate + gpRate\<close> below 1, for which \<open>calculate\<close> in
  per-page labour mode returns a valid result with no errors and a negative labour cost.
\<close>

theorem sanitization_keeps_negatives:
  "safeNumber (Fin x) = Fin x \<and> safeNumber NaN = Fin 0
   \<and> safeNumber PInf = Fin 0 \<and> safeNumber NInf = Fin 0
   \<and> errors (calculate (i\<lparr>laborPerPage := a, monthlySalaryPerWorker := b,
                 scannerMonthly := c, pcMonthly := d, officePerJob := e,
                 trialPricePerPage := f\<rparr>) m l)
       = errors (calculate i m l)
   \<and> (\<exists>j. js_gt (Fin 0) (laborPerPage j)
         \<and> js_gt (safeNumber (pages j)) (Fin 0)
         \<and> js_gt (safeNumber (capacityPerPersonPerDay j)) (Fin 0)
         \<and> js_gt (safeNumber (workingDaysPerMonth j)) (Fin 0)
         \<and> js_gt (Fin 1) (js_add (safeNumber (riskRate j)) (safeNumber (gpRate j)))
         \<and> valid (calculate j noDeadline perPage)
         \<and> errors (calculate j noDeadline perPage) = []
         \<and> js_gt (Fin 0) (laborCost (calculate j noDeadline perPage)))"
proof -
  have 1: "safeNumber (Fin x) = Fin x \<and> safeNumber NaN = Fin 0
      \<and> safeNumber PInf = Fin 0 \<and> safeNumber NInf = Fin 0"
    by (simp add: safeNumber_def)
  have 2: "errors (calculate (i\<lparr>laborPerPage := a, monthlySalaryPerWorker := b,
                 scannerMonthly := c, pcMonthly := d, officePerJob := e,
                 trialPricePerPage := f\<rparr>) m l)
       = errors (calculate i m l)"
    by (simp add: errors_calculate)
  let ?j = "initialInput\<lparr>laborPerPage := Fin (- 1)\<rparr>"
  have 3: "js_gt (Fin 0) (laborPerPage ?j)
         \<and> js_gt (safeNumber (pages ?j)) (Fin 0)
         \<and> js_gt (safeNumber (capacityPerPersonPerDay ?j)) (Fin 0)
         \<and> js_gt (safeNumber (workingDaysPerMonth ?j)) (Fin 0)
         \<and> js_gt (Fin 1) (js_add (safeNumber (riskRate ?j)) (safeNumber (gpRate ?j)))"
    by (simp add: initialInput_def safeNumber_def finite_result_moderate)
  have 4: "valid (calculate ?j noDeadline perPage)
         \<and> errors (calculate ?j noDeadline perPage) = []
         \<and> js_gt (Fin 0) (laborCost (calculate ?j noDeadline perPage))"
    by (simp add: calculate_negative_wage)
  from 3 4 have "\<exists>j. js_gt (Fin 0) (laborPerPage j)
         \<and> js_gt (safeNumber (pages j)) (Fin 0)
         \<and> js_gt (safeNumber (capacityPerPersonPerDay j)) (Fin 0)
         \<and> js_gt (safeNumber (workingDaysPerMonth j)) (Fin 0)
         \<and> js_gt (Fin 1) (js_add (safeNumber (riskRate j)) (safeNumber (gpRate j)))
         \<and> valid (calculate j noDeadline perPage)
         \<and> errors (calculate j noDeadline perPage) = []
         \<and> js_gt (Fin 0) (laborCost (calculate j noDeadline perPage))"
    by (intro exI [of _ ?j]) (simp only: simp_thms)
  with 1 2 show ?thesis by (simp only: simp_thms)
qed

text \<open>The theorem at concrete inputs.\<close>

theorem sanitization_keeps_negatives_witness:
  "safeNumber (Fin (- 1)) = Fin (- 1)
   \<and> errors (calculate (initialInput\<lparr>laborPerPage := Fin (- 1)\<rparr>) noDeadline perPage) = []
   \<and> valid (calculate (initialInput\<lparr>laborPerPage := Fin (- 1)\<rparr>) noDeadline perPage)
   \<and> laborCost (calculate (initialInput\<lparr>laborPerPage := Fin (- 1)\<rparr>) noDeadline perPage)
       = Fin (- 20000)"
  using sanitization_keeps_negatives
      [where x = "- 1" and i = initialInput and a = "Fin (- 1)"
         and b = "monthlySalaryPerWorker initialInput" and c = "scannerMonthly initialInput"
         and d = "pcMonthly initialInput" and e = "officePerJob initialInput"
         and f = "trialPricePerPage initialInput" and m = noDeadline and l = perPage]
  by (simp add: calculate_negative_wage safeNumber_def)

end
